theory Spec2Isabelle
  imports Complex_Main "HOL-Library.Multiset" "HOL-Library.Log_Nat"
begin

section \<open>The drag-and-drop component of \<^verbatim>\<open>app.component.ts\<close>\<close>

text \<open>
  The component \<^verbatim>\<open>AppComponent\<close> keeps two arrays of item objects, a reference to the
  item being dragged, the style of the drag ghost and the mouse offset. Its handlers
  mutate these fields and the item objects; two of them configure a d3 transition whose
  callbacks run later.

  Conventions of the embedding:
  \<^item> an item object lives in a store and is named by its address; arrays hold
    references, so \<^verbatim>\<open>indexOf\<close> compares identities, as \<^verbatim>\<open>===\<close> does on objects;
  \<^item> a value that is an item reference or \<^verbatim>\<open>undefined\<close> is an \<open>addr option\<close>
    with \<open>None\<close> for \<^verbatim>\<open>undefined\<close>; a reference is truthy, \<^verbatim>\<open>undefined\<close> is not;
  \<^item> a \<^verbatim>\<open>number\<close> is a \<open>real\<close>. The subtractions that place the ghost under the
    mouse (the offset \<open>dragStart\<close> stores and its use in \<open>moveDragElement\<close>) round their
    result to binary64, as the source computes them on IEEE doubles (\<open>sub_double\<close>); the
    keyframes of the animations and the interpolation of d3, which is modelled from the
    spec, are taken over exact reals. Overflow to infinity, NaN and the sign of zero are
    outside the model;
  \<^item> reading a property of \<^verbatim>\<open>undefined\<close> is the error \<open>TypeError\<close>;
  \<^item> a handler takes the state and returns the new one, with the event as the handler
    left it and what it scheduled (a timer task, a transition);
  \<^item> record fields are prefixed where two interfaces share a field name
    (\<open>item_left\<close>, \<open>style_left\<close>), and \<^verbatim>\<open>drop\<close> is \<open>drop_handler\<close>.
\<close>

subsection \<open>Data\<close>

type_synonym addr = nat

type_synonym element = nat

datatype error = TypeError

text \<open>\<^verbatim>\<open>interface Item\<close>; the optional \<^verbatim>\<open>visible\<close> is absent as \<open>None\<close>.\<close>

record item =
  item_text :: string
  item_color :: string
  item_left :: real
  item_top :: real
  visible :: "bool option"

text \<open>\<^verbatim>\<open>interface DragItemStyle\<close>.\<close>

record drag_item_style =
  style_left :: real
  style_top :: real
  style_width :: real
  style_height :: real
  style_lineHeight :: real
  style_borderRadius :: real

record mouse_offset =
  off_x :: real
  off_y :: real

text \<open>
  The fields of \<^verbatim>\<open>AppComponent\<close>, with the object store the item references point
  into: \<open>heap\<close> gives the object at an address, \<open>nextRef\<close> is the next unused address.
  \<^verbatim>\<open>dragItemStyle\<close> is declared without an initial value, so it starts as
  \<^verbatim>\<open>undefined\<close>.
\<close>

record state =
  draggable :: "addr option list"
  dropped :: "addr option list"
  dragging :: "addr option"
  dragItemStyle :: "drag_item_style option"
  mouseOffset :: mouse_offset
  heap :: "addr \<Rightarrow> item"
  nextRef :: addr

text \<open>
  What the handlers use of a \<^verbatim>\<open>DragEvent\<close>: the page position, the target element, the
  \<^verbatim>\<open>dataTransfer\<close> object and whether \<^verbatim>\<open>preventDefault\<close> has been called. The events
  are those the browser dispatches during a drag, which carry a \<^verbatim>\<open>dataTransfer\<close> object.
  \<open>hasSetDragImage\<close> says whether the browser defines \<^verbatim>\<open>dataTransfer.setDragImage\<close>;
  \<open>dragImage\<close> records a call of it: the selector of the image element and the offsets.
\<close>

record data_transfer =
  transfer_data :: "string \<rightharpoonup> string"
  effectAllowed :: string
  hasSetDragImage :: bool
  dragImage :: "(string \<times> real \<times> real) option"

record drag_event =
  pageX :: real
  pageY :: real
  target :: element
  dataTransfer :: data_transfer
  defaultPrevented :: bool

text \<open>The value a handler returns: \<^verbatim>\<open>false\<close>, or nothing.\<close>

datatype ret = RetFalse | RetUndefined

text \<open>A callback given to \<^verbatim>\<open>setTimeout\<close>: the only one in the source hides an item.\<close>

datatype task = HideItem addr

text \<open>\<^verbatim>\<open>getBoundingClientRect()\<close> of an element.\<close>

record client_rect =
  rect_left :: real
  rect_top :: real
  rect_right :: real
  rect_bottom :: real

text \<open>
  The rendered page as the drop animation reads it: the bounding box of the \<open>k\<close>-th
  element matched by \<^verbatim>\<open>querySelectorAll('.dropped-item')\<close>, \<open>None\<close> where the node list
  has no such element. The template is not part of the source, so the page is a
  parameter.
\<close>

type_synonym dom = "nat \<Rightarrow> client_rect option"

text \<open>
  A configured d3 transition: the selected element, the duration in milliseconds, the
  factory given to \<^verbatim>\<open>attrTween\<close> (run when the transition starts; it returns the function
  run at every animation step with the progress \<open>t\<close>) and the \<^verbatim>\<open>'end'\<close> listener.
\<close>

record transition =
  selection :: element
  duration :: nat
  attrTween :: "dom \<Rightarrow> state \<Rightarrow> error + (real \<Rightarrow> state \<Rightarrow> error + string \<times> state)"
  on_end :: "state \<Rightarrow> error + state"

subsection \<open>Library functions\<close>

text \<open>
  \<^verbatim>\<open>Array.prototype.indexOf\<close>: the first index holding the searched value, \<open>-1\<close> when
  there is none.
\<close>

fun indexOf_from :: "'a list \<Rightarrow> 'a \<Rightarrow> int \<Rightarrow> int" where
  "indexOf_from [] x k = - 1"
| "indexOf_from (y # ys) x k = (if y = x then k else indexOf_from ys x (k + 1))"

definition indexOf :: "'a list \<Rightarrow> 'a \<Rightarrow> int" where
  "indexOf xs x = indexOf_from xs x 0"

text \<open>
  \<^verbatim>\<open>Array.prototype.splice(start, deleteCount)\<close> with no inserted elements, as the array
  it leaves behind: a negative \<open>start\<close> counts from the end and is clamped at \<open>0\<close>, a
  positive one is clamped at the length, and the count is clamped to what remains.
\<close>

definition splice_array :: "int \<Rightarrow> int \<Rightarrow> 'a list \<Rightarrow> 'a list" where
  "splice_array start deleteCount xs =
     (let len = int (length xs);
          actualStart = (if start < 0 then max (len + start) 0 else min start len);
          actualDeleteCount = min (max deleteCount 0) (len - actualStart)
      in take (nat actualStart) xs @ drop (nat (actualStart + actualDeleteCount)) xs)"

text \<open>\<^verbatim>\<open>Array.prototype.push\<close> of one element.\<close>

definition push :: "'a \<Rightarrow> 'a list \<Rightarrow> 'a list" where
  "push x xs = xs @ [x]"

text \<open>
  The binary64 value nearest to a real, ties going to the even significand: a double has
  53 significant bits, so a value with \<open>2 ^ e \<le> \<bar>x\<bar> < 2 ^ (e + 1)\<close> is rounded to a
  multiple of \<open>2 ^ (e - 52)\<close>, and \<open>e\<close> is at least \<open>-1022\<close> (below that the doubles are
  subnormal and evenly spaced). \<open>exponent\<close> computes \<open>e\<close> from the number of bits of the
  integer part, or of the reciprocal for a value below \<open>1\<close>.
\<close>

definition pow2 :: "int \<Rightarrow> real" where
  "pow2 k = (if 0 \<le> k then 2 ^ nat k else 1 / 2 ^ nat (- k))"

definition exponent :: "real \<Rightarrow> int" where
  "exponent x =
     (if 1 \<le> \<bar>x\<bar> then bitlen \<lfloor>\<bar>x\<bar>\<rfloor> - 1 else - bitlen (\<lceil>1 / \<bar>x\<bar>\<rceil> - 1))"

definition round_half_even :: "real \<Rightarrow> int" where
  "round_half_even m =
     (let f = \<lfloor>m\<rfloor>; r = m - of_int f
      in if r < 1 / 2 then f else if 1 / 2 < r then f + 1 else if even f then f else f + 1)"

definition round64 :: "real \<Rightarrow> real" where
  "round64 x =
     (if x = 0 then 0
      else let ulp = pow2 (max (exponent x) (- 1022) - 52)
           in of_int (round_half_even (x / ulp)) * ulp)"

text \<open>A real that is a double, and the subtraction \<^verbatim>\<open>a - b\<close> of two doubles.\<close>

definition is_double :: "real \<Rightarrow> bool" where
  "is_double x = (round64 x = x)"

definition sub_double :: "real \<Rightarrow> real \<Rightarrow> real" where
  "sub_double a b = round64 (a - b)"

text \<open>
  Modelled from the spec: \<^verbatim>\<open>d3.interpolate\<close> on two numbers, a function of the d3
  library, which is not part of the source. The spec has it interpolate linearly
  between two numbers; the definition is the blend d3 documents for
  \<^verbatim>\<open>interpolateNumber\<close>.
\<close>

definition interpolate :: "real \<Rightarrow> real \<Rightarrow> real \<Rightarrow> real" where
  "interpolate a b = (\<lambda>t. a * (1 - t) + b * t)"

text \<open>\<^verbatim>\<open>event.preventDefault()\<close>.\<close>

definition preventDefault :: "drag_event \<Rightarrow> drag_event" where
  "preventDefault event = event\<lparr>defaultPrevented := True\<rparr>"

text \<open>\<^verbatim>\<open>dataTransfer.setData(format, data)\<close>.\<close>

definition setData :: "string \<Rightarrow> string \<Rightarrow> data_transfer \<Rightarrow> data_transfer" where
  "setData format d dt = dt\<lparr>transfer_data := (transfer_data dt)(format \<mapsto> d)\<rparr>"

text \<open>\<^verbatim>\<open>dataTransfer.setDragImage(element, x, y)\<close>, the element named by its selector.\<close>

definition setDragImage :: "string \<Rightarrow> real \<Rightarrow> real \<Rightarrow> data_transfer \<Rightarrow> data_transfer" where
  "setDragImage sel x y dt = dt\<lparr>dragImage := Some (sel, x, y)\<rparr>"

subsection \<open>The component\<close>

text \<open>The assignment \<^verbatim>\<open>item.visible = v\<close> on the object at address \<open>a\<close>.\<close>

definition set_visible :: "addr \<Rightarrow> bool \<Rightarrow> state \<Rightarrow> state" where
  "set_visible a v st = st\<lparr>heap := (heap st)(a := (heap st a)\<lparr>visible := Some v\<rparr>)\<rparr>"

text \<open>Running a timer task.\<close>

fun run_task :: "task \<Rightarrow> state \<Rightarrow> state" where
  "run_task (HideItem a) st = set_visible a False st"

text \<open>
  A new component, from the field initialisers and the constructor, over the store
  \<open>h\<close> whose next unused address is \<open>n\<close>.
\<close>

definition new_AppComponent :: "(addr \<Rightarrow> item) \<Rightarrow> addr \<Rightarrow> state" where
  "new_AppComponent h n =
     \<lparr>draggable = [], dropped = [], dragging = None, dragItemStyle = None,
      mouseOffset = \<lparr>off_x = 0, off_y = 0\<rparr>, heap = h, nextRef = n\<rparr>"

text \<open>Allocation of an object literal: the new address and the store holding it.\<close>

definition new_item :: "item \<Rightarrow> state \<Rightarrow> addr \<times> state" where
  "new_item it st =
     (nextRef st, st\<lparr>heap := (heap st)(nextRef st := it), nextRef := Suc (nextRef st)\<rparr>)"

definition ngOnInit :: "state \<Rightarrow> state" where
  "ngOnInit st =
     (let (a1, st1) = new_item \<lparr>item_text = ''Item 1'', item_color = ''red'',
                                item_left = 100, item_top = 100, visible = None\<rparr> st;
          (a2, st2) = new_item \<lparr>item_text = ''Item 2'', item_color = ''green'',
                                item_left = 200, item_top = 100, visible = None\<rparr> st1;
          (a3, st3) = new_item \<lparr>item_text = ''Item 3'', item_color = ''yellow'',
                                item_left = 300, item_top = 100, visible = None\<rparr> st2
      in st3\<lparr>draggable := [Some a1, Some a2, Some a3]\<rparr>)"

text \<open>
  \<^verbatim>\<open>dragStart(event, item)\<close>: the returned value, the event, the timer tasks it
  scheduled and the new state.
\<close>

definition dragStart ::
  "drag_event \<Rightarrow> addr \<Rightarrow> state \<Rightarrow> ret \<times> drag_event \<times> task list \<times> state" where
  "dragStart event item st =
     (if dragging st \<noteq> None then (RetFalse, event, [], st)
      else
        let dt1 = setData ''text'' (item_text (heap st item)) (dataTransfer event);
            dt2 = dt1\<lparr>effectAllowed := ''move''\<rparr>;
            st1 = st\<lparr>dragging := Some item\<rparr>;
            (dt3, tasks, st2) =
              (if hasSetDragImage dt2
               then (setDragImage ''.drag-dummy'' 0 0 dt2, [HideItem item], st1)
               else (dt2, [], set_visible item False st1));
            st3 = st2\<lparr>dragItemStyle := Some
                    \<lparr>style_left = item_left (heap st2 item),
                     style_top = item_top (heap st2 item),
                     style_width = 80,
                     style_height = 80,
                     style_lineHeight = 80,
                     style_borderRadius = 50\<rparr>\<rparr>;
            st4 = st3\<lparr>mouseOffset := (mouseOffset st3)
                    \<lparr>off_x := sub_double (pageX event) (item_left (heap st3 item))\<rparr>\<rparr>;
            st5 = st4\<lparr>mouseOffset := (mouseOffset st4)
                    \<lparr>off_y := sub_double (pageY event) (item_top (heap st4 item))\<rparr>\<rparr>
        in (RetUndefined, event\<lparr>dataTransfer := dt3\<rparr>, tasks, st5))"

text \<open>The interpolation functions of the drag-cancel animation, \<^verbatim>\<open>const i\<close>.\<close>

record end_interpolators =
  end_left :: "real \<Rightarrow> real"
  end_top :: "real \<Rightarrow> real"

definition dragEnd_interpolators :: "state \<Rightarrow> error + end_interpolators" where
  "dragEnd_interpolators st =
     (case dragItemStyle st of
        None \<Rightarrow> Inl TypeError
      | Some s \<Rightarrow>
          (case dragging st of
             None \<Rightarrow> Inl TypeError
           | Some d \<Rightarrow>
               Inr \<lparr>end_left = interpolate (style_left s) (item_left (heap st d)),
                    end_top = interpolate (style_top s) (item_top (heap st d))\<rparr>))"

text \<open>The function run at every step of the drag-cancel animation.\<close>

definition dragEnd_tween ::
  "end_interpolators \<Rightarrow> real \<Rightarrow> state \<Rightarrow> error + string \<times> state" where
  "dragEnd_tween i t st =
     (case dragItemStyle st of
        None \<Rightarrow> Inl TypeError
      | Some s \<Rightarrow>
          let s1 = s\<lparr>style_left := end_left i t\<rparr>;
              s2 = s1\<lparr>style_top := end_top i t\<rparr>
          in Inr ('''', st\<lparr>dragItemStyle := Some s2\<rparr>))"

definition dragEnd_factory ::
  "dom \<Rightarrow> state \<Rightarrow> error + (real \<Rightarrow> state \<Rightarrow> error + string \<times> state)" where
  "dragEnd_factory page st =
     (case dragEnd_interpolators st of
        Inl e \<Rightarrow> Inl e
      | Inr i \<Rightarrow> Inr (dragEnd_tween i))"

definition dragEnd_on_end :: "addr \<Rightarrow> state \<Rightarrow> error + state" where
  "dragEnd_on_end item st = Inr ((set_visible item True st)\<lparr>dragging := None\<rparr>)"

text \<open>\<^verbatim>\<open>dragEnd(event, item)\<close> changes nothing itself: it configures the transition.\<close>

definition dragEnd :: "drag_event \<Rightarrow> addr \<Rightarrow> state \<Rightarrow> transition \<times> state" where
  "dragEnd event item st =
     (\<lparr>selection = target event, duration = 500,
       attrTween = dragEnd_factory, on_end = dragEnd_on_end item\<rparr>, st)"

definition dragOver :: "drag_event \<Rightarrow> state \<Rightarrow> drag_event \<times> state" where
  "dragOver event st =
     (if dragging st \<noteq> None then (preventDefault event, st) else (event, st))"

text \<open>The interpolation functions of the drop animation, \<^verbatim>\<open>const i\<close>.\<close>

record drop_interpolators =
  drop_left :: "real \<Rightarrow> real"
  drop_top :: "real \<Rightarrow> real"
  drop_width :: "real \<Rightarrow> real"
  drop_height :: "real \<Rightarrow> real"
  drop_lineHeight :: "real \<Rightarrow> real"
  drop_borderRadius :: "real \<Rightarrow> real"

definition drop_interpolators :: "nat \<Rightarrow> dom \<Rightarrow> state \<Rightarrow> error + drop_interpolators" where
  "drop_interpolators droppedIndex page st =
     (case page droppedIndex of
        None \<Rightarrow> Inl TypeError
      | Some box \<Rightarrow>
          (case dragItemStyle st of
             None \<Rightarrow> Inl TypeError
           | Some s \<Rightarrow>
               Inr \<lparr>drop_left = interpolate (style_left s) (rect_left box),
                    drop_top = interpolate (style_top s) (rect_top box),
                    drop_width = interpolate (style_width s) (rect_right box - rect_left box),
                    drop_height = interpolate (style_height s) (rect_bottom box - rect_top box),
                    drop_lineHeight = interpolate (style_lineHeight s) 20,
                    drop_borderRadius = interpolate (style_borderRadius s) 0\<rparr>))"

text \<open>The function run at every step of the drop animation.\<close>

definition drop_tween ::
  "drop_interpolators \<Rightarrow> real \<Rightarrow> state \<Rightarrow> error + string \<times> state" where
  "drop_tween i t st =
     (case dragItemStyle st of
        None \<Rightarrow> Inl TypeError
      | Some s \<Rightarrow>
          let s1 = s\<lparr>style_left := drop_left i t\<rparr>;
              s2 = s1\<lparr>style_top := drop_top i t\<rparr>;
              s3 = s2\<lparr>style_width := drop_width i t\<rparr>;
              s4 = s3\<lparr>style_height := drop_height i t\<rparr>;
              s5 = s4\<lparr>style_lineHeight := drop_lineHeight i t\<rparr>;
              s6 = s5\<lparr>style_borderRadius := drop_borderRadius i t\<rparr>
          in Inr ('''', st\<lparr>dragItemStyle := Some s6\<rparr>))"

definition drop_factory ::
  "nat \<Rightarrow> dom \<Rightarrow> state \<Rightarrow> error + (real \<Rightarrow> state \<Rightarrow> error + string \<times> state)" where
  "drop_factory droppedIndex page st =
     (case drop_interpolators droppedIndex page st of
        Inl e \<Rightarrow> Inl e
      | Inr i \<Rightarrow> Inr (drop_tween i))"

definition drop_on_end :: "state \<Rightarrow> error + state" where
  "drop_on_end st =
     (case dragging st of
        None \<Rightarrow> Inl TypeError
      | Some d \<Rightarrow> Inr ((set_visible d True st)\<lparr>dragging := None\<rparr>))"

text \<open>\<^verbatim>\<open>drop(event)\<close>: the event, the configured transition and the new state.\<close>

definition drop_handler :: "drag_event \<Rightarrow> state \<Rightarrow> drag_event \<times> transition \<times> state" where
  "drop_handler event st =
     (let event1 = preventDefault event;
          index = indexOf (draggable st) (dragging st);
          st1 = st\<lparr>draggable := splice_array index 1 (draggable st)\<rparr>;
          st2 = st1\<lparr>dropped := push (dragging st1) (dropped st1)\<rparr>;
          droppedIndex = length (dropped st2) - 1
      in (event1,
          \<lparr>selection = target event1, duration = 1000,
           attrTween = drop_factory droppedIndex, on_end = drop_on_end\<rparr>,
          st2))"

text \<open>\<^verbatim>\<open>moveDragElement(event)\<close>.\<close>

definition moveDragElement :: "drag_event \<Rightarrow> state \<Rightarrow> error + state" where
  "moveDragElement event st =
     (if dragging st \<noteq> None
      then (case dragItemStyle st of
              None \<Rightarrow> Inl TypeError
            | Some s \<Rightarrow>
                let s1 = s\<lparr>style_left := sub_double (pageX event) (off_x (mouseOffset st))\<rparr>;
                    s2 = s1\<lparr>style_top := sub_double (pageY event) (off_y (mouseOffset st))\<rparr>
                in Inr (st\<lparr>dragItemStyle := Some s2\<rparr>))
      else Inr st)"

subsection \<open>Sample inputs\<close>

text \<open>
  Concrete inputs for evaluating the handlers: a store holding the three tiles of
  \<open>ngOnInit\<close> at the addresses \<open>0\<close>, \<open>1\<close> and \<open>2\<close>, the component over it, a browser
  event at a page position (with or without \<^verbatim>\<open>setDragImage\<close>), a ghost style, the state
  while the second tile is dragged, and a page whose only dropped element has the box
  from \<open>(400, 60)\<close> to \<open>(600, 80)\<close>.
\<close>

definition blank_store :: "addr \<Rightarrow> item" where
  "blank_store =
     (\<lambda>a. \<lparr>item_text = [], item_color = [], item_left = 0, item_top = 0, visible = None\<rparr>)"

definition tiles :: "addr \<Rightarrow> item" where
  "tiles = blank_store
     (0 := \<lparr>item_text = ''Item 1'', item_color = ''red'',
            item_left = 100, item_top = 100, visible = None\<rparr>,
      1 := \<lparr>item_text = ''Item 2'', item_color = ''green'',
            item_left = 200, item_top = 100, visible = None\<rparr>,
      2 := \<lparr>item_text = ''Item 3'', item_color = ''yellow'',
            item_left = 300, item_top = 100, visible = None\<rparr>)"

definition tiles_state :: state where
  "tiles_state =
     \<lparr>draggable = [Some 0, Some 1, Some 2], dropped = [], dragging = None,
      dragItemStyle = None, mouseOffset = \<lparr>off_x = 0, off_y = 0\<rparr>,
      heap = tiles, nextRef = 3\<rparr>"

definition browser_event :: "real \<Rightarrow> real \<Rightarrow> bool \<Rightarrow> drag_event" where
  "browser_event x y chrome =
     \<lparr>pageX = x, pageY = y, target = 0,
      dataTransfer = \<lparr>transfer_data = Map.empty, effectAllowed = ''uninitialized'',
                      hasSetDragImage = chrome, dragImage = None\<rparr>,
      defaultPrevented = False\<rparr>"

definition ghost :: "real \<Rightarrow> real \<Rightarrow> real \<Rightarrow> real \<Rightarrow> real \<Rightarrow> real \<Rightarrow> drag_item_style" where
  "ghost l t w h lh br =
     \<lparr>style_left = l, style_top = t, style_width = w, style_height = h,
      style_lineHeight = lh, style_borderRadius = br\<rparr>"

definition dragged_state :: "drag_item_style \<Rightarrow> state" where
  "dragged_state s = tiles_state\<lparr>dragging := Some 1, dragItemStyle := Some s\<rparr>"

definition drop_zone :: dom where
  "drop_zone =
     (\<lambda>k. if k = 0
          then Some \<lparr>rect_left = 400, rect_top = 60, rect_right = 600, rect_bottom = 80\<rparr>
          else None)"

section \<open>Properties\<close>

subsection \<open>Rounding\<close>

lemma pow2_pos: "0 < pow2 k"
  by (simp add: pow2_def)

lemma round_half_even_of_int: "round_half_even (of_int n) = n"
  by (simp add: round_half_even_def Let_def)

text \<open>A value that is a whole number of units in its last place is not rounded.\<close>

lemma round64_exact:
  assumes "x / pow2 (max (exponent x) (- 1022) - 52) = of_int m"
  shows "round64 x = x"
proof (cases "x = 0")
  case True
  then show ?thesis by (simp add: round64_def)
next
  case False
  let ?u = "pow2 (max (exponent x) (- 1022) - 52)"
  have u: "?u \<noteq> 0" using pow2_pos [of "max (exponent x) (- 1022) - 52"] by simp
  have "round64 x = of_int (round_half_even (x / ?u)) * ?u"
    using False by (simp add: round64_def Let_def)
  also have "\<dots> = of_int m * ?u"
    by (simp only: assms round_half_even_of_int)
  also have "\<dots> = x"
    using assms u by (simp add: field_simps)
  finally show ?thesis .
qed

lemma exponent_of_int:
  assumes "n \<noteq> 0"
  shows "exponent (of_int n) = bitlen \<bar>n\<bar> - 1"
proof -
  have "\<bar>real_of_int n\<bar> = of_int \<bar>n\<bar>" by simp
  moreover have "1 \<le> \<bar>n\<bar>" using assms by simp
  ultimately show ?thesis
    by (simp add: exponent_def del: of_int_abs)
qed

lemma bitlen_small:
  assumes "0 < n" and "n < 2 ^ 53"
  shows "bitlen n \<le> 53"
proof (rule ccontr)
  assume "\<not> bitlen n \<le> 53"
  then have "53 \<le> nat (bitlen n - 1)" by simp
  then have "(2::int) ^ 53 \<le> 2 ^ nat (bitlen n - 1)"
    by (rule power_increasing) simp
  also have "\<dots> \<le> n" using bitlen_bounds [OF assms(1)] by simp
  finally show False using assms(2) by simp
qed

text \<open>The integers up to \<open>2 ^ 53\<close> in magnitude are doubles.\<close>

lemma round64_of_int:
  assumes "\<bar>n\<bar> \<le> 2 ^ 53"
  shows "round64 (of_int n) = of_int n"
proof (cases "\<bar>n\<bar> = 2 ^ 53")
  case True
  then have b: "bitlen \<bar>n\<bar> = 54"
    using bitlen_pow2 [of 1 53] by (simp add: compute_bitlen [of 1])
  have n: "n \<noteq> 0" using True by auto
  from True have "n = 2 ^ 53 \<or> n = - (2 ^ 53)" by (auto simp: abs_if split: if_splits)
  then have "real_of_int n / pow2 (max (exponent (of_int n)) (- 1022) - 52) = of_int (n div 2)"
    by (auto simp add: exponent_of_int [OF n] b pow2_def)
  then show ?thesis by (rule round64_exact)
next
  case False
  show ?thesis
  proof (cases "n = 0")
    case True
    then show ?thesis by (simp add: round64_def)
  next
    case n: False
    have pos: "0 < \<bar>n\<bar>" using n by simp
    have lt: "\<bar>n\<bar> < 2 ^ 53" using assms False by simp
    have le: "bitlen \<bar>n\<bar> \<le> 53" by (rule bitlen_small [OF pos lt])
    have ge: "1 \<le> bitlen \<bar>n\<bar>"
      using pos bitlen_eq_zero_iff [of "\<bar>n\<bar>"] bitlen_nonneg [of "\<bar>n\<bar>"] by simp
    define k where "k = nat (53 - bitlen \<bar>n\<bar>)"
    have "pow2 (max (exponent (of_int n)) (- 1022) - 52) = 1 / 2 ^ k"
      using le ge by (auto simp add: exponent_of_int [OF n] pow2_def k_def max_def)
    then have "real_of_int n / pow2 (max (exponent (of_int n)) (- 1022) - 52) =
                 of_int (n * 2 ^ k)"
      by simp
    then show ?thesis by (rule round64_exact)
  qed
qed

lemma round64_numeral: "numeral k \<le> (2::int) ^ 53 \<Longrightarrow> round64 (numeral k) = numeral k"
  using round64_of_int [of "numeral k"] by simp

lemma is_double_numeral: "numeral k \<le> (2::int) ^ 53 \<Longrightarrow> is_double (numeral k)"
  by (simp add: is_double_def round64_numeral)

text \<open>
  Between \<open>2 ^ 56\<close> and \<open>2 ^ 57\<close> the doubles are the multiples of \<open>16\<close>:
  \<open>10 ^ 17 - 200\<close> lies halfway between two of them and goes to the even one.
\<close>

lemma bitlen_far: "bitlen 99999999999999800 = 57"
  by code_simp

lemma round64_far: "round64 99999999999999800 = 99999999999999808"
  by (simp add: round64_def exponent_def bitlen_far pow2_def round_half_even_def Let_def)

subsection \<open>Arrays\<close>

lemma indexOf_from_absent: "x \<notin> set xs \<Longrightarrow> indexOf_from xs x k = - 1"
  by (induction xs arbitrary: k) auto

lemma indexOf_from_first:
  "x \<notin> set pre \<Longrightarrow> indexOf_from (pre @ x # post) x k = k + int (length pre)"
  by (induction pre arbitrary: k) auto

lemma indexOf_absent: "x \<notin> set xs \<Longrightarrow> indexOf xs x = - 1"
  by (simp add: indexOf_def indexOf_from_absent)

lemma indexOf_first: "x \<notin> set pre \<Longrightarrow> indexOf (pre @ x # post) x = int (length pre)"
  by (simp add: indexOf_def indexOf_from_first)

lemma splice_array_at: "splice_array (int (length pre)) 1 (pre @ x # post) = pre @ post"
proof -
  have "nat (int (length pre) + 1) = Suc (length pre)" by simp
  then show ?thesis by (simp add: splice_array_def Let_def)
qed

lemma splice_array_last: "xs \<noteq> [] \<Longrightarrow> splice_array (- 1) 1 xs = butlast xs"
  by (cases xs rule: rev_cases) (simp_all add: splice_array_def Let_def)

lemma remove1_first: "x \<notin> set pre \<Longrightarrow> remove1 x (pre @ x # post) = pre @ post"
  by (simp add: remove1_append)

lemma splice_array_indexOf_member:
  assumes "x \<in> set xs"
  shows "splice_array (indexOf xs x) 1 xs = remove1 x xs"
proof -
  from assms obtain pre post where xs: "xs = pre @ x # post" and pre: "x \<notin> set pre"
    by (auto dest: split_list_first)
  show ?thesis
    unfolding xs by (simp only: indexOf_first [OF pre] splice_array_at remove1_first [OF pre])
qed

subsection \<open>Dropping\<close>

lemma drop_handler_state:
  "snd (snd (drop_handler event st)) =
     st\<lparr>draggable := splice_array (indexOf (draggable st) (dragging st)) 1 (draggable st),
        dropped := dropped st @ [dragging st]\<rparr>"
  by (simp add: drop_handler_def Let_def push_def)

lemma drop_handler_dragged:
  "drop_handler (browser_event 260 170 True) (dragged_state (ghost 250 160 80 80 80 50)) =
     (preventDefault (browser_event 260 170 True),
      \<lparr>selection = 0, duration = 1000, attrTween = drop_factory 0, on_end = drop_on_end\<rparr>,
      (dragged_state (ghost 250 160 80 80 80 50))
        \<lparr>draggable := [Some 0, Some 2], dropped := [Some 1]\<rparr>)"
  by (simp add: drop_handler_def dragged_state_def tiles_state_def indexOf_def
      splice_array_def push_def preventDefault_def browser_event_def Let_def)

lemma drop_handler_idle:
  "drop_handler (browser_event 260 170 True) tiles_state =
     (preventDefault (browser_event 260 170 True),
      \<lparr>selection = 0, duration = 1000, attrTween = drop_factory 0, on_end = drop_on_end\<rparr>,
      tiles_state\<lparr>draggable := [Some 0, Some 1], dropped := [None]\<rparr>)"
  by (simp add: drop_handler_def tiles_state_def indexOf_def
      splice_array_def push_def preventDefault_def browser_event_def Let_def)

text \<open>
  C1. When the dragged item is in the draggable array, \<open>drop_handler\<close> removes its first
  occurrence from that array, keeping the other elements in their order, and appends it
  to the dropped array; the two arrays together hold the same elements as before.
\<close>

theorem drop_moves_dragged_item:
  assumes "dragging st \<in> set (draggable st)"
    and "drop_handler event st = (event', tr, st')"
  shows "draggable st' = remove1 (dragging st) (draggable st) \<and>
         (\<exists>pre post. draggable st = pre @ dragging st # post \<and> dragging st \<notin> set pre \<and>
                      draggable st' = pre @ post) \<and>
         dropped st' = dropped st @ [dragging st] \<and>
         mset (draggable st') + mset (dropped st') = mset (draggable st) + mset (dropped st)"
proof -
  from assms(1) obtain pre post
    where xs: "draggable st = pre @ dragging st # post" and pre: "dragging st \<notin> set pre"
    by (auto dest: split_list_first)
  have st': "st' = st\<lparr>draggable :=
                        splice_array (indexOf (draggable st) (dragging st)) 1 (draggable st),
                      dropped := dropped st @ [dragging st]\<rparr>"
    using drop_handler_state [of event st] assms(2) by simp
  have d: "draggable st' = remove1 (dragging st) (draggable st)"
    by (simp add: st' splice_array_indexOf_member [OF assms(1)])
  have d2: "draggable st' = pre @ post"
    using d pre by (simp add: xs remove1_append)
  have p: "dropped st' = dropped st @ [dragging st]"
    by (simp add: st')
  have m: "mset (draggable st') + mset (dropped st') = mset (draggable st) + mset (dropped st)"
    by (simp add: d2 p xs)
  from d d2 p m xs pre show ?thesis by blast
qed

theorem drop_moves_dragged_item_witness:
  "dragging (dragged_state (ghost 250 160 80 80 80 50))
     \<in> set (draggable (dragged_state (ghost 250 160 80 80 80 50))) \<and>
   drop_handler (browser_event 260 170 True) (dragged_state (ghost 250 160 80 80 80 50)) =
     (preventDefault (browser_event 260 170 True),
      \<lparr>selection = 0, duration = 1000, attrTween = drop_factory 0, on_end = drop_on_end\<rparr>,
      (dragged_state (ghost 250 160 80 80 80 50))
        \<lparr>draggable := [Some 0, Some 2], dropped := [Some 1]\<rparr>) \<and>
   draggable ((dragged_state (ghost 250 160 80 80 80 50))
        \<lparr>draggable := [Some 0, Some 2], dropped := [Some 1]\<rparr>) =
     remove1 (Some 1) [Some 0, Some 1, Some 2] \<and>
   dropped ((dragged_state (ghost 250 160 80 80 80 50))
        \<lparr>draggable := [Some 0, Some 2], dropped := [Some 1]\<rparr>) = [] @ [Some 1]"
proof -
  have m: "dragging (dragged_state (ghost 250 160 80 80 80 50))
     \<in> set (draggable (dragged_state (ghost 250 160 80 80 80 50)))"
    by (simp add: dragged_state_def tiles_state_def)
  show ?thesis
    using m drop_handler_dragged drop_moves_dragged_item [OF m drop_handler_dragged]
    by (simp add: dragged_state_def tiles_state_def)
qed

text \<open>
  C10. When the dragged value is not in the draggable array (it may be \<^verbatim>\<open>undefined\<close>) and
  that array is not empty, \<open>indexOf\<close> gives \<open>-1\<close>, \<open>drop_handler\<close> removes the last element
  of the draggable array and appends the dragged value to the dropped array.
\<close>

theorem drop_without_member:
  assumes "dragging st \<notin> set (draggable st)"
    and "draggable st \<noteq> []"
    and "drop_handler event st = (event', tr, st')"
  shows "indexOf (draggable st) (dragging st) = - 1 \<and>
         draggable st' = butlast (draggable st) \<and>
         dropped st' = dropped st @ [dragging st]"
proof -
  have st': "st' = st\<lparr>draggable :=
                        splice_array (indexOf (draggable st) (dragging st)) 1 (draggable st),
                      dropped := dropped st @ [dragging st]\<rparr>"
    using drop_handler_state [of event st] assms(3) by simp
  show ?thesis
    using assms(1,2) by (simp add: st' splice_array_last indexOf_absent)
qed

theorem drop_without_member_witness:
  "dragging tiles_state \<notin> set (draggable tiles_state) \<and>
   draggable tiles_state \<noteq> [] \<and>
   drop_handler (browser_event 260 170 True) tiles_state =
     (preventDefault (browser_event 260 170 True),
      \<lparr>selection = 0, duration = 1000, attrTween = drop_factory 0, on_end = drop_on_end\<rparr>,
      tiles_state\<lparr>draggable := [Some 0, Some 1], dropped := [None]\<rparr>) \<and>
   indexOf [Some 0, Some 1, Some (2::nat)] None = - 1 \<and>
   draggable (tiles_state\<lparr>draggable := [Some 0, Some 1], dropped := [None]\<rparr>) =
     butlast [Some 0, Some 1, Some 2] \<and>
   dropped (tiles_state\<lparr>draggable := [Some 0, Some 1], dropped := [None]\<rparr>) = [] @ [None]"
proof -
  have m: "dragging tiles_state \<notin> set (draggable tiles_state)"
    by (simp add: tiles_state_def)
  have n: "draggable tiles_state \<noteq> []"
    by (simp add: tiles_state_def)
  show ?thesis
    using m n drop_handler_idle drop_without_member [OF m n drop_handler_idle]
    by (simp add: tiles_state_def)
qed

subsection \<open>Initialisation\<close>

text \<open>The sample component is the one \<open>ngOnInit\<close> builds over the blank store.\<close>

lemma ngOnInit_tiles: "ngOnInit (new_AppComponent blank_store 0) = tiles_state"
  by (simp add: ngOnInit_def new_AppComponent_def new_item_def tiles_state_def tiles_def
      numeral_2_eq_2 numeral_3_eq_3)

text \<open>
  C4. After the constructor and \<open>ngOnInit\<close> the draggable array holds exactly three
  distinct items: \<^verbatim>\<open>'Item 1'\<close> in red at left 100, \<^verbatim>\<open>'Item 2'\<close> in green at left 200 and
  \<^verbatim>\<open>'Item 3'\<close> in yellow at left 300, each at top 100; the dropped array is empty.
\<close>

theorem ngOnInit_items:
  "map (map_option (heap (ngOnInit (new_AppComponent h n))))
       (draggable (ngOnInit (new_AppComponent h n))) =
     [Some \<lparr>item_text = ''Item 1'', item_color = ''red'', item_left = 100, item_top = 100, visible = None\<rparr>,
      Some \<lparr>item_text = ''Item 2'', item_color = ''green'', item_left = 200, item_top = 100, visible = None\<rparr>,
      Some \<lparr>item_text = ''Item 3'', item_color = ''yellow'', item_left = 300, item_top = 100, visible = None\<rparr>] \<and>
   distinct (draggable (ngOnInit (new_AppComponent h n))) \<and>
   dropped (ngOnInit (new_AppComponent h n)) = []"
  by (simp add: ngOnInit_def new_AppComponent_def new_item_def)

subsection \<open>Starting a drag\<close>

text \<open>
  C8. While a drag is in progress \<open>dragStart\<close> returns \<^verbatim>\<open>false\<close> and changes nothing:
  the state (with the store of the items), the event and the timer queue are as before.
\<close>

theorem dragStart_busy:
  assumes "dragging st \<noteq> None"
  shows "dragStart event item st = (RetFalse, event, [], st)"
  using assms by (simp add: dragStart_def)

theorem dragStart_busy_witness:
  "dragging (tiles_state\<lparr>dragging := Some 1\<rparr>) \<noteq> None \<and>
   dragStart (browser_event 230 140 True) 2 (tiles_state\<lparr>dragging := Some 1\<rparr>) =
     (RetFalse, browser_event 230 140 True, [], tiles_state\<lparr>dragging := Some 1\<rparr>)"
proof -
  have h: "dragging (tiles_state\<lparr>dragging := Some 1\<rparr>) \<noteq> None" by simp
  show ?thesis using h dragStart_busy [OF h] by simp
qed

lemma dragStart_sample:
  "dragStart (browser_event 230 140 True) 1 tiles_state =
     (RetUndefined,
      (browser_event 230 140 True)\<lparr>dataTransfer :=
         \<lparr>transfer_data = [''text'' \<mapsto> ''Item 2''], effectAllowed = ''move'',
          hasSetDragImage = True, dragImage = Some (''.drag-dummy'', 0, 0)\<rparr>\<rparr>,
      [HideItem 1],
      tiles_state\<lparr>dragging := Some 1, dragItemStyle := Some (ghost 200 100 80 80 80 50),
                  mouseOffset := \<lparr>off_x = 30, off_y = 40\<rparr>\<rparr>)"
  by (simp add: dragStart_def tiles_state_def tiles_def browser_event_def setData_def
      setDragImage_def ghost_def sub_double_def round64_numeral Let_def)

text \<open>
  C5. A drag start accepted by \<open>dragStart\<close> (no drag in progress) sets the ghost style
  to width 80, height 80, line height 80 and border radius 50, with left and top those
  of the dragged item, whose position the call does not change.
\<close>

theorem dragStart_ghost_style:
  assumes "dragging st = None"
    and "dragStart event item st = (r, event', tasks, st')"
  shows "dragItemStyle st' = Some
           \<lparr>style_left = item_left (heap st item), style_top = item_top (heap st item),
            style_width = 80, style_height = 80, style_lineHeight = 80,
            style_borderRadius = 50\<rparr> \<and>
         dragging st' = Some item \<and>
         item_left (heap st' item) = item_left (heap st item) \<and>
         item_top (heap st' item) = item_top (heap st item)"
  using assms
  by (cases "hasSetDragImage (dataTransfer event)")
     (auto simp add: dragStart_def Let_def set_visible_def setData_def setDragImage_def)

theorem dragStart_ghost_style_witness:
  "dragging tiles_state = None \<and>
   dragStart (browser_event 230 140 True) 1 tiles_state =
     (RetUndefined,
      (browser_event 230 140 True)\<lparr>dataTransfer :=
         \<lparr>transfer_data = [''text'' \<mapsto> ''Item 2''], effectAllowed = ''move'',
          hasSetDragImage = True, dragImage = Some (''.drag-dummy'', 0, 0)\<rparr>\<rparr>,
      [HideItem 1],
      tiles_state\<lparr>dragging := Some 1, dragItemStyle := Some (ghost 200 100 80 80 80 50),
                  mouseOffset := \<lparr>off_x = 30, off_y = 40\<rparr>\<rparr>) \<and>
   dragItemStyle (tiles_state\<lparr>dragging := Some 1, dragItemStyle := Some (ghost 200 100 80 80 80 50),
                  mouseOffset := \<lparr>off_x = 30, off_y = 40\<rparr>\<rparr>) =
     Some \<lparr>style_left = 200, style_top = 100, style_width = 80, style_height = 80,
           style_lineHeight = 80, style_borderRadius = 50\<rparr>"
proof -
  have h: "dragging tiles_state = None" by (simp add: tiles_state_def)
  show ?thesis
    using h dragStart_sample dragStart_ghost_style [OF h dragStart_sample]
    by (simp add: tiles_state_def tiles_def)
qed

subsection \<open>Hovering over the landing zone\<close>

text \<open>
  C7. \<open>dragOver\<close> calls \<open>preventDefault\<close> on the event exactly when a drag is in
  progress; with no drag in progress the event and the state are returned as they were,
  and the state is never changed.
\<close>

theorem dragOver_preventDefault:
  "(dragging st \<noteq> None \<longrightarrow> dragOver event st = (preventDefault event, st)) \<and>
   (dragging st = None \<longrightarrow> dragOver event st = (event, st)) \<and>
   snd (dragOver event st) = st \<and>
   (\<not> defaultPrevented event \<longrightarrow>
      defaultPrevented (fst (dragOver event st)) = (dragging st \<noteq> None))"
  by (simp add: dragOver_def preventDefault_def)

theorem dragOver_preventDefault_witness:
  "dragging (tiles_state\<lparr>dragging := Some 1\<rparr>) \<noteq> None \<and>
   dragging tiles_state = None \<and>
   \<not> defaultPrevented (browser_event 400 60 True) \<and>
   dragOver (browser_event 400 60 True) (tiles_state\<lparr>dragging := Some 1\<rparr>) =
     (preventDefault (browser_event 400 60 True), tiles_state\<lparr>dragging := Some 1\<rparr>) \<and>
   defaultPrevented (fst (dragOver (browser_event 400 60 True) (tiles_state\<lparr>dragging := Some 1\<rparr>))) \<and>
   dragOver (browser_event 400 60 True) tiles_state = (browser_event 400 60 True, tiles_state) \<and>
   \<not> defaultPrevented (fst (dragOver (browser_event 400 60 True) tiles_state))"
proof -
  have h1: "dragging (tiles_state\<lparr>dragging := Some 1\<rparr>) \<noteq> None" by simp
  have h2: "dragging tiles_state = None" by (simp add: tiles_state_def)
  have h3: "\<not> defaultPrevented (browser_event 400 60 True)" by (simp add: browser_event_def)
  show ?thesis
    using h1 h2 h3
      dragOver_preventDefault [of "tiles_state\<lparr>dragging := Some 1\<rparr>" "browser_event 400 60 True"]
      dragOver_preventDefault [of tiles_state "browser_event 400 60 True"]
    by (simp add: preventDefault_def)
qed

subsection \<open>Moving the ghost\<close>

lemma moveDragElement_frame:
  assumes "moveDragElement event st = Inr st'"
  shows "st' = st\<lparr>dragItemStyle := dragItemStyle st'\<rparr> \<and>
         map_option style_width (dragItemStyle st') = map_option style_width (dragItemStyle st) \<and>
         map_option style_height (dragItemStyle st') = map_option style_height (dragItemStyle st) \<and>
         map_option style_lineHeight (dragItemStyle st') =
           map_option style_lineHeight (dragItemStyle st) \<and>
         map_option style_borderRadius (dragItemStyle st') =
           map_option style_borderRadius (dragItemStyle st)"
  using assms
  by (auto simp add: moveDragElement_def Let_def split: if_splits option.splits)

lemma dragStart_accepted:
  assumes "dragging st = None"
    and "dragStart event item st = (r, event', tasks, st')"
  shows "dragging st' = Some item"
    and "dragItemStyle st' = Some
           \<lparr>style_left = item_left (heap st item), style_top = item_top (heap st item),
            style_width = 80, style_height = 80, style_lineHeight = 80,
            style_borderRadius = 50\<rparr>"
    and "mouseOffset st' = (mouseOffset st)
           \<lparr>off_x := sub_double (pageX event) (item_left (heap st item)),
            off_y := sub_double (pageY event) (item_top (heap st item))\<rparr>"
  using assms
  by (cases "hasSetDragImage (dataTransfer event)";
      auto simp add: dragStart_def Let_def set_visible_def setData_def setDragImage_def)+

text \<open>When the offset is computed without rounding, subtracting it gives the position back.\<close>

lemma sub_double_round_trip:
  assumes "is_double l" and "is_double (x - l)"
  shows "sub_double x (sub_double x l) = l"
  using assms by (simp add: sub_double_def is_double_def)

lemma dragStart_far:
  "dragStart (browser_event 100000000000000000 140 True) 1 tiles_state =
     (RetUndefined,
      (browser_event 100000000000000000 140 True)\<lparr>dataTransfer :=
         \<lparr>transfer_data = [''text'' \<mapsto> ''Item 2''], effectAllowed = ''move'',
          hasSetDragImage = True, dragImage = Some (''.drag-dummy'', 0, 0)\<rparr>\<rparr>,
      [HideItem 1],
      tiles_state\<lparr>dragging := Some 1, dragItemStyle := Some (ghost 200 100 80 80 80 50),
                  mouseOffset := \<lparr>off_x = 99999999999999808, off_y = 40\<rparr>\<rparr>)"
  by (simp add: dragStart_def tiles_state_def tiles_def browser_event_def setData_def
      setDragImage_def ghost_def sub_double_def round64_numeral round64_far Let_def)

text \<open>
  C9, as stated, asks that for every item and mouse position \<open>moveDragElement\<close> at the
  position of the drag start puts the ghost exactly at the left and top of the item.
  The source subtracts doubles: for the second tile, at left 200, and the page position
  \<open>10 ^ 17\<close> the stored offset is rounded to \<open>99999999999999808\<close>, and
  \<open>moveDragElement\<close> at the same position puts the ghost at left 192.
\<close>

theorem mouse_offset_round_trip_counterexample:
  "dragging tiles_state = None \<and>
   item_left (heap tiles_state 1) = 200 \<and>
   dragStart (browser_event 100000000000000000 140 True) 1 tiles_state =
     (RetUndefined,
      (browser_event 100000000000000000 140 True)\<lparr>dataTransfer :=
         \<lparr>transfer_data = [''text'' \<mapsto> ''Item 2''], effectAllowed = ''move'',
          hasSetDragImage = True, dragImage = Some (''.drag-dummy'', 0, 0)\<rparr>\<rparr>,
      [HideItem 1],
      tiles_state\<lparr>dragging := Some 1, dragItemStyle := Some (ghost 200 100 80 80 80 50),
                  mouseOffset := \<lparr>off_x = 99999999999999808, off_y = 40\<rparr>\<rparr>) \<and>
   moveDragElement (browser_event 100000000000000000 140 False)
     (tiles_state\<lparr>dragging := Some 1, dragItemStyle := Some (ghost 200 100 80 80 80 50),
                  mouseOffset := \<lparr>off_x = 99999999999999808, off_y = 40\<rparr>\<rparr>) =
   Inr (tiles_state\<lparr>dragging := Some 1, dragItemStyle := Some (ghost 192 100 80 80 80 50),
                    mouseOffset := \<lparr>off_x = 99999999999999808, off_y = 40\<rparr>\<rparr>)"
proof -
  have "dragging tiles_state = None" and "item_left (heap tiles_state 1) = 200"
    by (simp_all add: tiles_state_def tiles_def)
  moreover have "moveDragElement (browser_event 100000000000000000 140 False)
     (tiles_state\<lparr>dragging := Some 1, dragItemStyle := Some (ghost 200 100 80 80 80 50),
                  mouseOffset := \<lparr>off_x = 99999999999999808, off_y = 40\<rparr>\<rparr>) =
   Inr (tiles_state\<lparr>dragging := Some 1, dragItemStyle := Some (ghost 192 100 80 80 80 50),
                    mouseOffset := \<lparr>off_x = 99999999999999808, off_y = 40\<rparr>\<rparr>)"
    by (simp add: moveDragElement_def browser_event_def ghost_def sub_double_def
        round64_numeral Let_def)
  ultimately show ?thesis
    using dragStart_far by simp
qed

text \<open>
  C9, amended. Let the left and top of the item be doubles and let the offsets
  \<^verbatim>\<open>pageX - item.left\<close> and \<^verbatim>\<open>pageY - item.top\<close> be computed without rounding. Then after
  an accepted \<open>dragStart\<close>, \<open>moveDragElement\<close> for an event at the same page position puts
  the ghost exactly at the left and top of the item. Whenever \<open>moveDragElement\<close> returns,
  it has changed nothing but the left and top of the ghost style.
\<close>

theorem mouse_offset_round_trip:
  assumes "dragging st = None"
    and "dragStart event item st = (r, event', tasks, st')"
    and "pageX move = pageX event"
    and "pageY move = pageY event"
    and "is_double (item_left (heap st item))"
    and "is_double (item_top (heap st item))"
    and "is_double (pageX event - item_left (heap st item))"
    and "is_double (pageY event - item_top (heap st item))"
  shows "moveDragElement move st' =
           Inr (st'\<lparr>dragItemStyle := Some
                  \<lparr>style_left = item_left (heap st item), style_top = item_top (heap st item),
                   style_width = 80, style_height = 80, style_lineHeight = 80,
                   style_borderRadius = 50\<rparr>\<rparr>) \<and>
         (\<forall>ev s0 s1. moveDragElement ev s0 = Inr s1 \<longrightarrow>
            s1 = s0\<lparr>dragItemStyle := dragItemStyle s1\<rparr> \<and>
            map_option style_width (dragItemStyle s1) = map_option style_width (dragItemStyle s0) \<and>
            map_option style_height (dragItemStyle s1) = map_option style_height (dragItemStyle s0) \<and>
            map_option style_lineHeight (dragItemStyle s1) =
              map_option style_lineHeight (dragItemStyle s0) \<and>
            map_option style_borderRadius (dragItemStyle s1) =
              map_option style_borderRadius (dragItemStyle s0))"
proof -
  note acc = dragStart_accepted [OF assms(1,2)]
  have x: "sub_double (pageX event) (sub_double (pageX event) (item_left (heap st item))) =
             item_left (heap st item)"
    by (rule sub_double_round_trip [OF assms(5) assms(7)])
  have y: "sub_double (pageY event) (sub_double (pageY event) (item_top (heap st item))) =
             item_top (heap st item)"
    by (rule sub_double_round_trip [OF assms(6) assms(8)])
  have "moveDragElement move st' =
           Inr (st'\<lparr>dragItemStyle := Some
                  \<lparr>style_left = item_left (heap st item), style_top = item_top (heap st item),
                   style_width = 80, style_height = 80, style_lineHeight = 80,
                   style_borderRadius = 50\<rparr>\<rparr>)"
    by (simp add: moveDragElement_def acc assms(3,4) x y)
  with moveDragElement_frame show ?thesis by blast
qed

theorem mouse_offset_round_trip_witness:
  "dragging tiles_state = None \<and>
   dragStart (browser_event 230 140 True) 1 tiles_state =
     (RetUndefined,
      (browser_event 230 140 True)\<lparr>dataTransfer :=
         \<lparr>transfer_data = [''text'' \<mapsto> ''Item 2''], effectAllowed = ''move'',
          hasSetDragImage = True, dragImage = Some (''.drag-dummy'', 0, 0)\<rparr>\<rparr>,
      [HideItem 1],
      tiles_state\<lparr>dragging := Some 1, dragItemStyle := Some (ghost 200 100 80 80 80 50),
                  mouseOffset := \<lparr>off_x = 30, off_y = 40\<rparr>\<rparr>) \<and>
   pageX (browser_event 230 140 False) = pageX (browser_event 230 140 True) \<and>
   pageY (browser_event 230 140 False) = pageY (browser_event 230 140 True) \<and>
   is_double (item_left (heap tiles_state 1)) \<and>
   is_double (item_top (heap tiles_state 1)) \<and>
   is_double (pageX (browser_event 230 140 True) - item_left (heap tiles_state 1)) \<and>
   is_double (pageY (browser_event 230 140 True) - item_top (heap tiles_state 1)) \<and>
   moveDragElement (browser_event 230 140 False)
     (tiles_state\<lparr>dragging := Some 1, dragItemStyle := Some (ghost 200 100 80 80 80 50),
                  mouseOffset := \<lparr>off_x = 30, off_y = 40\<rparr>\<rparr>) =
   Inr (tiles_state\<lparr>dragging := Some 1, dragItemStyle := Some (ghost 200 100 80 80 80 50),
                  mouseOffset := \<lparr>off_x = 30, off_y = 40\<rparr>\<rparr>)"
proof -
  have h: "dragging tiles_state = None" by (simp add: tiles_state_def)
  have x: "pageX (browser_event 230 140 False) = pageX (browser_event 230 140 True)"
    and y: "pageY (browser_event 230 140 False) = pageY (browser_event 230 140 True)"
    by (simp_all add: browser_event_def)
  have l: "is_double (item_left (heap tiles_state 1))"
    and t: "is_double (item_top (heap tiles_state 1))"
    by (simp_all add: tiles_state_def tiles_def is_double_numeral)
  have dx: "is_double (pageX (browser_event 230 140 True) - item_left (heap tiles_state 1))"
    and dy: "is_double (pageY (browser_event 230 140 True) - item_top (heap tiles_state 1))"
    by (simp_all add: tiles_state_def tiles_def browser_event_def is_double_numeral)
  show ?thesis
    using h x y l t dx dy dragStart_sample
      mouse_offset_round_trip [OF h dragStart_sample x y l t dx dy]
    by (simp add: tiles_state_def tiles_def ghost_def)
qed

subsection \<open>Animations\<close>

text \<open>
  C6. The transition configured by \<open>dragEnd\<close> has the duration 500 ms and the one
  configured by \<open>drop_handler\<close> the duration 1000 ms, whatever the event, the item and
  the state.
\<close>

theorem durations_fixed:
  "duration (fst (dragEnd event item st)) = 500 \<and>
   duration (fst (snd (drop_handler event' st'))) = 1000"
  by (simp add: dragEnd_def drop_handler_def Let_def)


lemma interpolate_start: "interpolate a b 0 = a"
  by (simp add: interpolate_def)

lemma interpolate_finish: "interpolate a b 1 = b"
  by (simp add: interpolate_def)

lemma dragEnd_tween_step:
  assumes "dragItemStyle st = Some s"
  shows "dragEnd_tween i t st =
           Inr ('''', st\<lparr>dragItemStyle := Some
                  \<lparr>style_left = end_left i t, style_top = end_top i t,
                   style_width = style_width s, style_height = style_height s,
                   style_lineHeight = style_lineHeight s,
                   style_borderRadius = style_borderRadius s\<rparr>\<rparr>)"
  using assms by (simp add: dragEnd_tween_def Let_def)

lemma drop_tween_step:
  assumes "dragItemStyle st = Some s"
  shows "drop_tween j t st =
           Inr ('''', st\<lparr>dragItemStyle := Some
                  \<lparr>style_left = drop_left j t, style_top = drop_top j t,
                   style_width = drop_width j t, style_height = drop_height j t,
                   style_lineHeight = drop_lineHeight j t,
                   style_borderRadius = drop_borderRadius j t\<rparr>\<rparr>)"
  using assms by (simp add: drop_tween_def Let_def)

lemma dragEnd_attrTween:
  assumes "attrTween (fst (dragEnd event item st)) page start = Inr step"
  shows "\<exists>i. dragEnd_interpolators start = Inr i \<and> step = dragEnd_tween i"
  using assms by (auto simp add: dragEnd_def dragEnd_factory_def split: sum.splits)

lemma drop_attrTween:
  assumes "attrTween (fst (snd (drop_handler event st))) page start = Inr step"
  shows "\<exists>j. drop_interpolators (length (dropped st)) page start = Inr j \<and> step = drop_tween j"
  using assms
  by (auto simp add: drop_handler_def drop_factory_def push_def Let_def split: sum.splits)

lemma dragEnd_attrTween_sample:
  "attrTween (fst (dragEnd (browser_event 260 170 True) 1 (dragged_state (ghost 250 160 80 80 80 50))))
     drop_zone (dragged_state (ghost 250 160 80 80 80 50)) =
   Inr (dragEnd_tween \<lparr>end_left = interpolate 250 200, end_top = interpolate 160 100\<rparr>)"
  by (simp add: dragEnd_def dragEnd_factory_def dragEnd_interpolators_def dragged_state_def
      tiles_state_def tiles_def ghost_def)

lemma drop_attrTween_sample:
  "attrTween (fst (snd (drop_handler (browser_event 260 170 True) (dragged_state (ghost 250 160 80 80 80 50)))))
     drop_zone
     ((dragged_state (ghost 250 160 80 80 80 50))\<lparr>draggable := [Some 0, Some 2], dropped := [Some 1]\<rparr>) =
   Inr (drop_tween \<lparr>drop_left = interpolate 250 400, drop_top = interpolate 160 60,
                    drop_width = interpolate 80 200, drop_height = interpolate 80 20,
                    drop_lineHeight = interpolate 80 20, drop_borderRadius = interpolate 50 0\<rparr>)"
  by (simp add: drop_handler_def drop_factory_def drop_interpolators_def dragged_state_def
      tiles_state_def push_def drop_zone_def ghost_def Let_def)

text \<open>
  C2, as stated, asks that every step of both animations sets the left, top, width,
  height and border radius of the ghost style. A step of the drag-cancel animation does
  not set the size and the shape: the function the factory of \<open>dragEnd\<close> returns moves
  the ghost half of the way back at \<open>t = 1/2\<close>, and from a ghost of width 80, height 80
  and radius 50 it leaves these values, from a ghost of width 200, height 20 and radius
  0 it leaves those.
\<close>

theorem cancel_step_keeps_size_counterexample:
  "attrTween (fst (dragEnd (browser_event 260 170 True) 1 (dragged_state (ghost 250 160 80 80 80 50))))
     drop_zone (dragged_state (ghost 250 160 80 80 80 50)) =
   Inr (dragEnd_tween \<lparr>end_left = interpolate 250 200, end_top = interpolate 160 100\<rparr>) \<and>
   dragEnd_tween \<lparr>end_left = interpolate 250 200, end_top = interpolate 160 100\<rparr> (1 / 2)
       (dragged_state (ghost 250 160 80 80 80 50)) =
     Inr ('''', dragged_state (ghost 225 130 80 80 80 50)) \<and>
   dragEnd_tween \<lparr>end_left = interpolate 250 200, end_top = interpolate 160 100\<rparr> (1 / 2)
       (dragged_state (ghost 250 160 200 20 20 0)) =
     Inr ('''', dragged_state (ghost 225 130 200 20 20 0))"
  using dragEnd_attrTween_sample
  by (simp add: dragEnd_tween_def dragged_state_def ghost_def interpolate_def Let_def)

text \<open>
  C2, amended. Every step of the drop animation sets the left, top, width, height, line
  height and border radius of the ghost style to the values of its interpolators at the
  progress \<open>t\<close>; every step of the drag-cancel animation sets left and top only and
  leaves width, height, line height and border radius as they were.
\<close>

theorem animation_step_fields:
  assumes "attrTween (fst (dragEnd event1 item st1)) page1 start1 = Inr cancel_step"
    and "attrTween (fst (snd (drop_handler event2 st2))) page2 start2 = Inr drop_step"
  shows "(\<exists>i::end_interpolators. \<forall>t st s. dragItemStyle st = Some s \<longrightarrow>
            cancel_step t st =
              Inr ('''', st\<lparr>dragItemStyle := Some
                     \<lparr>style_left = end_left i t, style_top = end_top i t,
                      style_width = style_width s, style_height = style_height s,
                      style_lineHeight = style_lineHeight s,
                      style_borderRadius = style_borderRadius s\<rparr>\<rparr>)) \<and>
         (\<exists>j::drop_interpolators. \<forall>t st s. dragItemStyle st = Some s \<longrightarrow>
            drop_step t st =
              Inr ('''', st\<lparr>dragItemStyle := Some
                     \<lparr>style_left = drop_left j t, style_top = drop_top j t,
                      style_width = drop_width j t, style_height = drop_height j t,
                      style_lineHeight = drop_lineHeight j t,
                      style_borderRadius = drop_borderRadius j t\<rparr>\<rparr>))"
proof (rule conjI)
  from dragEnd_attrTween [OF assms(1)] obtain i where i: "cancel_step = dragEnd_tween i"
    by blast
  show "\<exists>i::end_interpolators. \<forall>t st s. dragItemStyle st = Some s \<longrightarrow>
            cancel_step t st =
              Inr ('''', st\<lparr>dragItemStyle := Some
                     \<lparr>style_left = end_left i t, style_top = end_top i t,
                      style_width = style_width s, style_height = style_height s,
                      style_lineHeight = style_lineHeight s,
                      style_borderRadius = style_borderRadius s\<rparr>\<rparr>)"
    unfolding i by (rule exI [of _ i]) (simp add: dragEnd_tween_step)
next
  from drop_attrTween [OF assms(2)] obtain j where j: "drop_step = drop_tween j"
    by blast
  show "\<exists>j::drop_interpolators. \<forall>t st s. dragItemStyle st = Some s \<longrightarrow>
            drop_step t st =
              Inr ('''', st\<lparr>dragItemStyle := Some
                     \<lparr>style_left = drop_left j t, style_top = drop_top j t,
                      style_width = drop_width j t, style_height = drop_height j t,
                      style_lineHeight = drop_lineHeight j t,
                      style_borderRadius = drop_borderRadius j t\<rparr>\<rparr>)"
    unfolding j by (rule exI [of _ j]) (simp add: drop_tween_step)
qed

theorem animation_step_fields_witness:
  "attrTween (fst (dragEnd (browser_event 260 170 True) 1 (dragged_state (ghost 250 160 80 80 80 50))))
     drop_zone (dragged_state (ghost 250 160 80 80 80 50)) =
   Inr (dragEnd_tween \<lparr>end_left = interpolate 250 200, end_top = interpolate 160 100\<rparr>) \<and>
   attrTween (fst (snd (drop_handler (browser_event 260 170 True) (dragged_state (ghost 250 160 80 80 80 50)))))
     drop_zone
     ((dragged_state (ghost 250 160 80 80 80 50))\<lparr>draggable := [Some 0, Some 2], dropped := [Some 1]\<rparr>) =
   Inr (drop_tween \<lparr>drop_left = interpolate 250 400, drop_top = interpolate 160 60,
                    drop_width = interpolate 80 200, drop_height = interpolate 80 20,
                    drop_lineHeight = interpolate 80 20, drop_borderRadius = interpolate 50 0\<rparr>) \<and>
   dragItemStyle (dragged_state (ghost 250 160 80 80 80 50)) = Some (ghost 250 160 80 80 80 50) \<and>
   dragEnd_tween \<lparr>end_left = interpolate 250 200, end_top = interpolate 160 100\<rparr> (1 / 2)
       (dragged_state (ghost 250 160 80 80 80 50)) =
     Inr ('''', dragged_state (ghost 225 130 80 80 80 50)) \<and>
   drop_tween \<lparr>drop_left = interpolate 250 400, drop_top = interpolate 160 60,
               drop_width = interpolate 80 200, drop_height = interpolate 80 20,
               drop_lineHeight = interpolate 80 20, drop_borderRadius = interpolate 50 0\<rparr> (1 / 2)
       (dragged_state (ghost 250 160 80 80 80 50)) =
     Inr ('''', dragged_state (ghost 325 110 140 50 50 25))"
proof -
  have s: "dragItemStyle (dragged_state (ghost 250 160 80 80 80 50)) = Some (ghost 250 160 80 80 80 50)"
    by (simp add: dragged_state_def)
  have c: "dragEnd_tween \<lparr>end_left = interpolate 250 200, end_top = interpolate 160 100\<rparr> (1 / 2)
       (dragged_state (ghost 250 160 80 80 80 50)) =
     Inr ('''', dragged_state (ghost 225 130 80 80 80 50))"
    by (simp add: dragEnd_tween_def dragged_state_def ghost_def interpolate_def Let_def)
  have d: "drop_tween \<lparr>drop_left = interpolate 250 400, drop_top = interpolate 160 60,
               drop_width = interpolate 80 200, drop_height = interpolate 80 20,
               drop_lineHeight = interpolate 80 20, drop_borderRadius = interpolate 50 0\<rparr> (1 / 2)
       (dragged_state (ghost 250 160 80 80 80 50)) =
     Inr ('''', dragged_state (ghost 325 110 140 50 50 25))"
    by (simp add: drop_tween_def dragged_state_def ghost_def interpolate_def Let_def)
  show ?thesis
    using animation_step_fields [OF dragEnd_attrTween_sample drop_attrTween_sample]
      dragEnd_attrTween_sample drop_attrTween_sample s c d
    by blast
qed



end
